theory Spec2Isabelle
  imports Main "HOL-Library.AList"
begin

section \<open>Values, exceptions and user-visible messages\<close>

text \<open>
  The program is one Flask module, \<^verbatim>\<open>app.py\<close>. Its handlers read and write two DynamoDB
  tables, validate WTForms forms and answer with a redirect, a rendered template, an
  \<^verbatim>\<open>abort\<close> or an uncaught exception. Strings are lists of characters, one character per
  code point below 256; an absent form field and an empty one are both the empty string
  (every place of the source that reads a field treats \<^verbatim>\<open>None\<close> and \<^verbatim>\<open>''\<close> alike: truth
  tests, \<^verbatim>\<open>DataRequired\<close>, \<^verbatim>\<open>Optional\<close>). The one field with a default,
  \<^verbatim>\<open>organization\<close> of the registration form, keeps the two apart.
\<close>

text \<open>
  The texts shown to the user are Japanese string literals of the source. Each literal is
  one constructor, named by its meaning; the line of \<^verbatim>\<open>app.py\<close> that holds it is given.
  \<^verbatim>\<open>FieldMsg\<close> is the f-string of line 463, the field's label followed by the error.
\<close>

datatype field_name =
    F_organization | F_display_name | F_user_name | F_furigana | F_phone | F_post_code
  | F_address | F_email | F_email_confirm | F_password | F_pass_confirm | F_gender
  | F_date_of_birth

datatype msg =
    MsgLoginRequired                \<comment> \<open>line 73, login is needed for this page\<close>
  | MsgSelectOrganization           \<comment> \<open>lines 118, 152\<close>
  | MsgDisplayNameRequired          \<comment> \<open>line 119\<close>
  | MsgDisplayNameLength            \<comment> \<open>line 119\<close>
  | MsgPhoneLength                  \<comment> \<open>lines 122, 156\<close>
  | MsgPostCodeLength               \<comment> \<open>lines 123, 157\<close>
  | MsgAddressLength                \<comment> \<open>lines 124, 158\<close>
  | MsgEmailFormat                  \<comment> \<open>lines 125, 159\<close>
  | MsgEmailMismatch                \<comment> \<open>line 126\<close>
  | MsgPasswordLength               \<comment> \<open>lines 127, 161\<close>
  | MsgPasswordMismatch             \<comment> \<open>lines 127, 161\<close>
  | MsgEnteredEmailAlreadyRegistered \<comment> \<open>line 145, the entered address is already registered\<close>
  | MsgEmailCheckError              \<comment> \<open>lines 148, 190, an error occurred while checking the address\<close>
  | MsgEmailInUse                   \<comment> \<open>line 187\<close>
  | MsgEnterEmail                   \<comment> \<open>line 324\<close>
  | MsgLoginEmailFormat             \<comment> \<open>line 325\<close>
  | MsgEnterPassword                \<comment> \<open>line 331\<close>
  | MsgEmailNotRegistered           \<comment> \<open>line 355, this address is not registered\<close>
  | MsgLoginProcessingError         \<comment> \<open>lines 361, 513, 532, an error occurred during login\<close>
  | MsgCheckEmailFirst              \<comment> \<open>line 366, check the address first\<close>
  | MsgPasswordIncorrect            \<comment> \<open>line 369, the password is not correct\<close>
  | MsgEmailAlreadyRegistered       \<comment> \<open>lines 402, 442, this address is already registered\<close>
  | MsgAccountCreated               \<comment> \<open>line 432\<close>
  | MsgInvalidInput                 \<comment> \<open>line 444\<close>
  | MsgSystemError                  \<comment> \<open>line 446\<close>
  | MsgAccountCreationError         \<comment> \<open>line 449\<close>
  | MsgUnexpectedError              \<comment> \<open>line 455\<close>
  | MsgInvalidCredentials           \<comment> \<open>lines 489, 528, the address or the password is not correct\<close>
  | MsgUserDataLoadFailed           \<comment> \<open>line 508\<close>
  | MsgLoginSuccess                 \<comment> \<open>line 519\<close>
  | MsgUserFetchFailed              \<comment> \<open>line 577\<close>
  | MsgAccountUpdated               \<comment> \<open>line 638\<close>
  | MsgAccountDatabaseError         \<comment> \<open>line 650\<close>
  | MsgPostNotFound                 \<comment> \<open>line 671\<close>
  | MsgNoEditPermission             \<comment> \<open>line 676, no permission to edit\<close>
  | MsgPostUpdated                  \<comment> \<open>line 719\<close>
  | MsgPostDatabaseError            \<comment> \<open>line 724\<close>
  | MsgFieldRequired                \<comment> \<open>WTForms default of DataRequired\<close>
  | MsgLengthBetween nat nat        \<comment> \<open>WTForms default of Length(min, max)\<close>
  | MsgInvalidEmail                 \<comment> \<open>WTForms default of Email\<close>
  | MsgNotValidChoice               \<comment> \<open>WTForms, SelectField.pre_validate\<close>
  | MsgNotValidDate                 \<comment> \<open>WTForms, DateField.process_formdata\<close>
  | FieldMsg field_name msg         \<comment> \<open>line 463\<close>

datatype category = CatError | CatSuccess | CatMessage

text \<open>
  Exceptions are values. \<^verbatim>\<open>ValidationError\<close> and \<^verbatim>\<open>StopValidation\<close> are the two
  exceptions of WTForms; like every other one they are caught by \<^verbatim>\<open>except Exception\<close>.
\<close>

datatype error_code =
    ConditionalCheckFailedException | ValidationException | ResourceNotFoundException
  | ServiceUnavailable

datatype error =
    ClientError error_code
  | TypeError
  | NameError
  | KeyError
  | AttributeError
  | ValueError
  | ValidationError msg
  | StopValidation "msg option"

definition bindE :: "error + 'a \<Rightarrow> ('a \<Rightarrow> error + 'b) \<Rightarrow> error + 'b" where
  "bindE m f = (case m of Inl e \<Rightarrow> Inl e | Inr x \<Rightarrow> f x)"

section \<open>The record store\<close>

text \<open>
  A DynamoDB item is a dictionary from attribute names to typed values; the source only
  uses the types \<^verbatim>\<open>S\<close> and \<^verbatim>\<open>BOOL\<close>. A table is the list of its items. The users table
  is \<^verbatim>\<open>app.table_name\<close> (also reached through the resource \<^verbatim>\<open>app.table\<close>); the posts
  table is the one the post views mean to reach. \<^verbatim>\<open>fault\<close> is the failure of the store
  service: when it is set, every call raises \<^verbatim>\<open>ClientError\<close> with that code.
\<close>

datatype attrval = S string | BOOL bool

type_synonym item = "(string \<times> attrval) list"

type_synonym table = "item list"

record store =
  users_table :: table
  posts_table :: table
  fault :: "error_code option"

definition has_key :: "string \<Rightarrow> string \<Rightarrow> item \<Rightarrow> bool" where
  "has_key k v it = (map_of it k = Some (S v))"

definition get_item :: "table \<Rightarrow> string \<Rightarrow> string \<Rightarrow> item option" where
  "get_item tbl k v = find (has_key k v) tbl"

text \<open>\<^verbatim>\<open>put_item\<close> replaces the item that has the same primary key, or adds the item.\<close>

fun put_item :: "table \<Rightarrow> string \<Rightarrow> string \<Rightarrow> item \<Rightarrow> table" where
  "put_item [] k v new = [new]"
| "put_item (it # tbl) k v new =
     (if has_key k v it then new # tbl else it # put_item tbl k v new)"

text \<open>
  \<^verbatim>\<open>update_item\<close> with an update expression \<^verbatim>\<open>SET a = :a, b = :b\<close>: the expression is the
  list of its assignments, each an attribute name with the value bound to its
  placeholder. The item with the key gets the attributes overwritten; when no item has
  the key, DynamoDB creates one that holds the key and the assigned attributes.
\<close>

definition apply_set :: "(string \<times> attrval) list \<Rightarrow> item \<Rightarrow> item" where
  "apply_set assignments it = fold (\<lambda>(a, x) i. AList.update a x i) assignments it"

fun update_item :: "table \<Rightarrow> string \<Rightarrow> string \<Rightarrow> (string \<times> attrval) list \<Rightarrow> table" where
  "update_item [] k v assignments = [apply_set assignments [(k, S v)]]"
| "update_item (it # tbl) k v assignments =
     (if has_key k v it then apply_set assignments it # tbl
      else it # update_item tbl k v assignments)"

text \<open>
  A query on \<^verbatim>\<open>email-index\<close> with \<^verbatim>\<open>email = :email\<close> returns the items whose
  \<^verbatim>\<open>email\<close> attribute is that string, here in table order.
\<close>

definition query_email :: "table \<Rightarrow> string \<Rightarrow> item list" where
  "query_email tbl e = filter (has_key ''email'' e) tbl"

definition delete_item :: "table \<Rightarrow> string \<Rightarrow> string \<Rightarrow> table" where
  "delete_item tbl k v = filter (\<lambda>it. \<not> has_key k v it) tbl"

text \<open>The calls as the handlers make them: each one raises when the service fails.\<close>

definition call :: "store \<Rightarrow> 'a \<Rightarrow> error + 'a" where
  "call st x = (case fault st of Some c \<Rightarrow> Inl (ClientError c) | None \<Rightarrow> Inr x)"

definition users_get_item :: "store \<Rightarrow> string \<Rightarrow> error + item option" where
  "users_get_item st uid = call st (get_item (users_table st) ''user_id'' uid)"

definition users_query_email :: "store \<Rightarrow> string \<Rightarrow> error + item list" where
  "users_query_email st e = call st (query_email (users_table st) e)"

definition users_put_item :: "store \<Rightarrow> string \<Rightarrow> item \<Rightarrow> error + store" where
  "users_put_item st uid new =
     call st (st\<lparr>users_table := put_item (users_table st) ''user_id'' uid new\<rparr>)"

definition users_update_item :: "store \<Rightarrow> string \<Rightarrow> (string \<times> attrval) list \<Rightarrow> error + store" where
  "users_update_item st uid assignments =
     call st (st\<lparr>users_table := update_item (users_table st) ''user_id'' uid assignments\<rparr>)"

definition posts_get_item :: "store \<Rightarrow> string \<Rightarrow> error + item option" where
  "posts_get_item st pid = call st (get_item (posts_table st) ''post_id'' pid)"

definition posts_update_item :: "store \<Rightarrow> string \<Rightarrow> (string \<times> attrval) list \<Rightarrow> error + store" where
  "posts_update_item st pid assignments =
     call st (st\<lparr>posts_table := update_item (posts_table st) ''post_id'' pid assignments\<rparr>)"

text \<open>
  Reading a string attribute: \<^verbatim>\<open>item[k]['S']\<close> on an item of the low-level client and
  \<^verbatim>\<open>item[k]\<close> on an item of the resource \<^verbatim>\<open>app.table\<close> raise \<^verbatim>\<open>KeyError\<close> when the
  attribute is absent; \<^verbatim>\<open>item.get(k, {}).get('S')\<close> gives \<^verbatim>\<open>None\<close> instead.
\<close>

definition attr_S :: "item \<Rightarrow> string \<Rightarrow> error + string" where
  "attr_S it k = (case map_of it k of Some (S v) \<Rightarrow> Inr v | _ \<Rightarrow> Inl KeyError)"

definition get_S :: "item \<Rightarrow> string \<Rightarrow> string option" where
  "get_S it k = (case map_of it k of Some (S v) \<Rightarrow> Some v | _ \<Rightarrow> None)"

section \<open>Library functions and the inputs the program does not compute\<close>

text \<open>
  The functions of werkzeug, email-validator, datetime and urllib that the module calls
  are parameters of the model: \<^verbatim>\<open>check_password_hash(pwhash, password)\<close>,
  \<^verbatim>\<open>generate_password_hash(password)\<close> (with the salt it draws made an argument), the
  syntax check behind the \<^verbatim>\<open>Email\<close> validator, \<^verbatim>\<open>strptime\<close> and \<^verbatim>\<open>strftime\<close> for the
  format \<^verbatim>\<open>%Y-%m-%d\<close>, \<^verbatim>\<open>urljoin\<close>, and of \<^verbatim>\<open>urlparse\<close> the two components the module
  reads, scheme and netloc. The two URL functions may raise (\<^verbatim>\<open>ValueError\<close> on a malformed
  network location), so they return an error or a value.
\<close>

record lib =
  check_password_hash :: "string \<Rightarrow> string \<Rightarrow> bool"
  generate_password_hash :: "string \<Rightarrow> string \<Rightarrow> string"
  email_syntax :: "string \<Rightarrow> bool"
  strptime_ymd :: "string \<Rightarrow> (nat \<times> nat \<times> nat) option"
  strftime_ymd :: "nat \<times> nat \<times> nat \<Rightarrow> string"
  urljoin :: "string \<Rightarrow> string \<Rightarrow> error + string"
  urlparse :: "string \<Rightarrow> error + string \<times> string"

text \<open>
  What a request draws from the environment: the clock (\<^verbatim>\<open>datetime.now().isoformat()\<close>,
  one reading per request), \<^verbatim>\<open>uuid.uuid4()\<close> and the salt of the password hash.
\<close>

record world =
  now :: string
  uuid4 :: string
  salt :: string

text \<open>\<^verbatim>\<open>str.lower\<close> on code points below 256.\<close>

definition lower_char :: "char \<Rightarrow> char" where
  "lower_char c =
     (let n = (of_char c :: nat)
      in if (65 \<le> n \<and> n \<le> 90) \<or> (192 \<le> n \<and> n \<le> 214) \<or> (216 \<le> n \<and> n \<le> 222)
         then char_of (n + 32) else c)"

definition lower :: "string \<Rightarrow> string" where
  "lower s = map lower_char s"

text \<open>\<^verbatim>\<open>str.strip\<close> removes leading and trailing white space.\<close>

definition is_space :: "char \<Rightarrow> bool" where
  "is_space c = ((of_char c :: nat) \<in> {9, 10, 11, 12, 13, 28, 29, 30, 31, 32, 133, 160})"

definition strip :: "string \<Rightarrow> string" where
  "strip s = rev (dropWhile is_space (rev (dropWhile is_space s)))"

section \<open>The principal\<close>

record User =
  user_id :: string
  display_name :: string
  user_name :: string
  furigana :: string
  email :: string
  password_hash :: string
  gender :: string
  date_of_birth :: string
  post_code :: string
  address :: string
  phone :: string
  organization :: string
  administrator :: bool
  created_at :: string
  updated_at :: string

text \<open>
  \<^verbatim>\<open>User.__init__\<close> (lines 194-212) called with the eleven arguments that \<^verbatim>\<open>load_user\<close> and
  \<^verbatim>\<open>login\<close> pass: \<^verbatim>\<open>organization\<close>, \<^verbatim>\<open>administrator\<close> and the two time stamps take their
  defaults, \<^verbatim>\<open>'uguis'\<close>, \<^verbatim>\<open>False\<close> and the clock.
\<close>

definition User_init where
  "User_init (w :: world) uid dn un fu em ph ge db pc ad pn =
     \<lparr>user_id = uid, display_name = dn, user_name = un, furigana = fu, email = em,
      password_hash = ph, gender = ge, date_of_birth = db, post_code = pc, address = ad,
      phone = pn, organization = ''uguis'', administrator = False,
      created_at = now w, updated_at = now w\<rparr>"

definition get_id :: "User \<Rightarrow> string" where
  "get_id u = user_id u"

definition is_administrator :: "User \<Rightarrow> bool" where
  "is_administrator u = administrator u"

definition check_password :: "lib \<Rightarrow> User \<Rightarrow> string \<Rightarrow> bool" where
  "check_password L u password = check_password_hash L (password_hash u) password"

text \<open>
  \<^verbatim>\<open>load_user\<close> (lines 90-115), the loader Flask-Login calls with the user id of the
  session: any exception, a failing store or a missing attribute, gives \<^verbatim>\<open>None\<close>.
\<close>

definition user_of_client_item :: "world \<Rightarrow> item \<Rightarrow> error + User" where
  "user_of_client_item w it =
     bindE (attr_S it ''user_id'') (\<lambda>uid.
     bindE (attr_S it ''display_name'') (\<lambda>dn.
     bindE (attr_S it ''user_name'') (\<lambda>un.
     bindE (attr_S it ''furigana'') (\<lambda>fu.
     bindE (attr_S it ''email'') (\<lambda>em.
     bindE (attr_S it ''password'') (\<lambda>ph.
     bindE (attr_S it ''gender'') (\<lambda>ge.
     bindE (attr_S it ''date_of_birth'') (\<lambda>db.
     bindE (attr_S it ''post_code'') (\<lambda>pc.
     bindE (attr_S it ''address'') (\<lambda>ad.
     bindE (attr_S it ''phone'') (\<lambda>pn.
     Inr (User_init w uid dn un fu em ph ge db pc ad pn))))))))))))"

definition load_user :: "world \<Rightarrow> store \<Rightarrow> string \<Rightarrow> User option" where
  "load_user w st uid =
     (case users_get_item st uid of
        Inl e \<Rightarrow> None
      | Inr None \<Rightarrow> None
      | Inr (Some it) \<Rightarrow>
          (case user_of_client_item w it of Inl e \<Rightarrow> None | Inr u \<Rightarrow> Some u))"

text \<open>
  \<^verbatim>\<open>current_user\<close>: the session holds the id of the user bound by \<^verbatim>\<open>login_user\<close>, or
  nothing; on each request the principal is what \<^verbatim>\<open>load_user\<close> returns for that id.
\<close>

definition current_user :: "world \<Rightarrow> store \<Rightarrow> string option \<Rightarrow> User option" where
  "current_user w st sess = (case sess of None \<Rightarrow> None | Some uid \<Rightarrow> load_user w st uid)"

section \<open>WTForms validation\<close>

text \<open>
  A validator is called with the form and the field; it may change the field's error
  list and the form object, and it returns or raises. The form object is the state
  \<open>'s\<close> (only \<^verbatim>\<open>LoginForm\<close> keeps something in it, \<^verbatim>\<open>self.user\<close>). The CSRF token
  that Flask-WTF adds to each form is taken to be valid. A form is submitted when the
  request is a POST (the routes allow GET and POST only).
\<close>

type_synonym 's validator = "'s \<Rightarrow> msg list \<Rightarrow> (error + unit) \<times> 's \<times> msg list"

text \<open>
  \<^verbatim>\<open>DataRequired\<close> and \<^verbatim>\<open>Optional\<close> empty the field's error list before they raise
  \<^verbatim>\<open>StopValidation\<close>.
\<close>

definition DataRequired :: "msg \<Rightarrow> string \<Rightarrow> 's validator" where
  "DataRequired m d s errs =
     (if d \<noteq> [] \<and> strip d \<noteq> [] then (Inr (), s, errs)
      else (Inl (StopValidation (Some m)), s, []))"

text \<open>\<^verbatim>\<open>DataRequired\<close> on a \<^verbatim>\<open>DateField\<close>, whose data is a date or \<^verbatim>\<open>None\<close>.\<close>

definition DataRequired_date :: "msg \<Rightarrow> (nat \<times> nat \<times> nat) option \<Rightarrow> 's validator" where
  "DataRequired_date m d s errs =
     (case d of Some x \<Rightarrow> (Inr (), s, errs)
      | None \<Rightarrow> (Inl (StopValidation (Some m)), s, []))"

definition Optional_v :: "string \<Rightarrow> 's validator" where
  "Optional_v d s errs =
     (if d = [] \<or> strip d = [] then (Inl (StopValidation None), s, [])
      else (Inr (), s, errs))"

text \<open>\<^verbatim>\<open>Length(min, max)\<close>; \<open>-1\<close> is the default of both bounds.\<close>

definition Length_v :: "int \<Rightarrow> int \<Rightarrow> msg \<Rightarrow> string \<Rightarrow> 's validator" where
  "Length_v mn mx m d s errs =
     (if mn \<le> int (length d) \<and> (mx = -1 \<or> int (length d) \<le> mx) then (Inr (), s, errs)
      else (Inl (ValidationError m), s, errs))"

definition Email_v :: "lib \<Rightarrow> msg \<Rightarrow> string \<Rightarrow> 's validator" where
  "Email_v L m d s errs =
     (if email_syntax L d then (Inr (), s, errs) else (Inl (ValidationError m), s, errs))"

definition EqualTo :: "string \<Rightarrow> msg \<Rightarrow> string \<Rightarrow> 's validator" where
  "EqualTo other m d s errs =
     (if d = other then (Inr (), s, errs) else (Inl (ValidationError m), s, errs))"

text \<open>\<^verbatim>\<open>SelectField.pre_validate\<close>: the data must be one of the choices.\<close>

definition pre_validate_choice :: "string list \<Rightarrow> string \<Rightarrow> 's validator" where
  "pre_validate_choice choices d s errs =
     (if d \<in> set choices then (Inr (), s, errs)
      else (Inl (ValidationError MsgNotValidChoice), s, errs))"

text \<open>
  \<^verbatim>\<open>Field._run_validation_chain\<close>: \<^verbatim>\<open>StopValidation\<close> ends the chain and adds its message,
  if it has one; \<^verbatim>\<open>ValidationError\<close> adds its message and the chain goes on; any other
  exception leaves the form's \<^verbatim>\<open>validate\<close>.
\<close>

fun run_validation_chain ::
  "'s validator list \<Rightarrow> 's \<Rightarrow> msg list \<Rightarrow> error + ('s \<times> msg list)" where
  "run_validation_chain [] s errs = Inr (s, errs)"
| "run_validation_chain (v # vs) s errs =
     (case v s errs of
        (Inr u, s', errs') \<Rightarrow> run_validation_chain vs s' errs'
      | (Inl (StopValidation mo), s', errs') \<Rightarrow>
          Inr (s', errs' @ (case mo of None \<Rightarrow> [] | Some m \<Rightarrow> [m]))
      | (Inl (ValidationError m), s', errs') \<Rightarrow> run_validation_chain vs s' (errs' @ [m])
      | (Inl e, s', errs') \<Rightarrow> Inl e)"

text \<open>
  \<^verbatim>\<open>Form.validate\<close>: every field is validated, in the order of declaration, starting from
  the errors of processing its input; \<^verbatim>\<open>form.errors\<close> holds the fields that have errors.
\<close>

fun validate_fields ::
  "(field_name \<times> msg list \<times> 's validator list) list \<Rightarrow> 's \<Rightarrow>
   error + ('s \<times> (field_name \<times> msg list) list)" where
  "validate_fields [] s = Inr (s, [])"
| "validate_fields ((n, process_errors, chain) # fs) s =
     bindE (run_validation_chain chain s process_errors) (\<lambda>(s', errs).
     bindE (validate_fields fs s') (\<lambda>(s'', rest).
     Inr (s'', if errs = [] then rest else (n, errs) # rest)))"

definition date_process_errors :: "lib \<Rightarrow> string \<Rightarrow> msg list" where
  "date_process_errors L d =
     (if d = [] then [] else case strptime_ymd L d of None \<Rightarrow> [MsgNotValidDate] | Some x \<Rightarrow> [])"

subsection \<open>RegistrationForm (lines 117-148)\<close>

text \<open>
  \<^verbatim>\<open>organization\<close> is declared with \<^verbatim>\<open>default='uguis'\<close>: when the submission does not hold
  the field, its data is the default; when it holds the field, its data is what was sent.
\<close>

record RegistrationForm =
  reg_organization :: "string option"
  reg_display_name :: string
  reg_user_name :: string
  reg_furigana :: string
  reg_phone :: string
  reg_post_code :: string
  reg_address :: string
  reg_email :: string
  reg_email_confirm :: string
  reg_password :: string
  reg_pass_confirm :: string
  reg_gender :: string
  reg_date_of_birth :: string

text \<open>
  \<^verbatim>\<open>RegistrationForm.validate_email\<close>: the \<^verbatim>\<open>raise\<close> of line 145 stands inside the
  \<^verbatim>\<open>try\<close> whose \<^verbatim>\<open>except Exception\<close> (line 146) raises the error of line 148.
\<close>

definition organization_data :: "RegistrationForm \<Rightarrow> string" where
  "organization_data f = (case reg_organization f of None \<Rightarrow> ''uguis'' | Some v \<Rightarrow> v)"

definition RegistrationForm_validate_email :: "store \<Rightarrow> string \<Rightarrow> 's validator" where
  "RegistrationForm_validate_email st d s errs =
     (case bindE (users_query_email st d) (\<lambda>items.
             if items \<noteq> [] then Inl (ValidationError MsgEnteredEmailAlreadyRegistered)
             else Inr ()) of
        Inr u \<Rightarrow> (Inr (), s, errs)
      | Inl e \<Rightarrow> (Inl (ValidationError MsgEmailCheckError), s, errs))"

definition RegistrationForm_fields ::
  "lib \<Rightarrow> store \<Rightarrow> RegistrationForm \<Rightarrow> (field_name \<times> msg list \<times> unit validator list) list" where
  "RegistrationForm_fields L st f =
     [(F_organization, [],
         [pre_validate_choice [''uguis'', ''other''] (organization_data f),
          DataRequired MsgSelectOrganization (organization_data f)]),
      (F_display_name, [],
         [DataRequired MsgDisplayNameRequired (reg_display_name f),
          Length_v 3 30 MsgDisplayNameLength (reg_display_name f)]),
      (F_user_name, [], [DataRequired MsgFieldRequired (reg_user_name f)]),
      (F_furigana, [], [DataRequired MsgFieldRequired (reg_furigana f)]),
      (F_phone, [],
         [DataRequired MsgFieldRequired (reg_phone f),
          Length_v 10 15 MsgPhoneLength (reg_phone f)]),
      (F_post_code, [],
         [DataRequired MsgFieldRequired (reg_post_code f),
          Length_v 7 7 MsgPostCodeLength (reg_post_code f)]),
      (F_address, [],
         [DataRequired MsgFieldRequired (reg_address f),
          Length_v (-1) 100 MsgAddressLength (reg_address f)]),
      (F_email, [],
         [DataRequired MsgFieldRequired (reg_email f),
          Email_v L MsgEmailFormat (reg_email f),
          RegistrationForm_validate_email st (reg_email f)]),
      (F_email_confirm, [],
         [DataRequired MsgFieldRequired (reg_email_confirm f),
          Email_v L MsgInvalidEmail (reg_email_confirm f),
          EqualTo (reg_email f) MsgEmailMismatch (reg_email_confirm f)]),
      (F_password, [],
         [DataRequired MsgFieldRequired (reg_password f),
          Length_v 8 (-1) MsgPasswordLength (reg_password f),
          EqualTo (reg_pass_confirm f) MsgPasswordMismatch (reg_password f)]),
      (F_pass_confirm, [], [DataRequired MsgFieldRequired (reg_pass_confirm f)]),
      (F_gender, [],
         [pre_validate_choice [[], ''male'', ''female'', ''other''] (reg_gender f),
          DataRequired MsgFieldRequired (reg_gender f)]),
      (F_date_of_birth, date_process_errors L (reg_date_of_birth f),
         [DataRequired_date MsgFieldRequired (strptime_ymd L (reg_date_of_birth f))])]"

definition RegistrationForm_validate ::
  "lib \<Rightarrow> store \<Rightarrow> RegistrationForm \<Rightarrow> error + (field_name \<times> msg list) list" where
  "RegistrationForm_validate L st f =
     bindE (validate_fields (RegistrationForm_fields L st f) ()) (\<lambda>(s, errs). Inr errs)"

subsection \<open>UpdateUserForm (lines 151-190)\<close>

record UpdateUserForm =
  upd_organization :: string
  upd_display_name :: string
  upd_user_name :: string
  upd_furigana :: string
  upd_phone :: string
  upd_post_code :: string
  upd_address :: string
  upd_email :: string
  upd_password :: string
  upd_pass_confirm :: string
  upd_gender :: string
  upd_date_of_birth :: string

text \<open>
  The values a call passes to \<^verbatim>\<open>UpdateUserForm\<close>: a string, or the table resource.
  \<^verbatim>\<open>__init__(self, user_id, dynamodb_table, *args, **kwargs)\<close> has two required
  positional parameters; a call with fewer arguments raises \<^verbatim>\<open>TypeError\<close>.
\<close>

datatype pyval = Str string | TableResource

record UpdateUserForm_self =
  self_id :: pyval
  self_table :: pyval

fun UpdateUserForm_init :: "pyval list \<Rightarrow> error + UpdateUserForm_self" where
  "UpdateUserForm_init (uid # dynamodb_table # args) =
     Inr \<lparr>self_id = uid, self_table = dynamodb_table\<rparr>"
| "UpdateUserForm_init args = Inl TypeError"

text \<open>
  \<^verbatim>\<open>UpdateUserForm.validate_email\<close>: only \<^verbatim>\<open>ClientError\<close> is caught here, so the
  \<^verbatim>\<open>ValidationError\<close> of line 187 reaches the chain. The loop raises at the first item of
  another user.
\<close>

fun other_user_item :: "pyval \<Rightarrow> item list \<Rightarrow> error + unit" where
  "other_user_item sid [] = Inr ()"
| "other_user_item sid (it # items) =
     bindE (attr_S it ''user_id'') (\<lambda>uid.
       if Str uid \<noteq> sid then Inl (ValidationError MsgEmailInUse)
       else other_user_item sid items)"

definition UpdateUserForm_validate_email ::
  "store \<Rightarrow> UpdateUserForm_self \<Rightarrow> string \<Rightarrow> 's validator" where
  "UpdateUserForm_validate_email st self d s errs =
     (case (case self_table self of
              Str x \<Rightarrow> Inl AttributeError
            | TableResource \<Rightarrow>
                bindE (users_query_email st d) (other_user_item (self_id self))) of
        Inl (ClientError c) \<Rightarrow> (Inl (ValidationError MsgEmailCheckError), s, errs)
      | r \<Rightarrow> (r, s, errs))"

definition UpdateUserForm_fields ::
  "lib \<Rightarrow> store \<Rightarrow> UpdateUserForm_self \<Rightarrow> UpdateUserForm \<Rightarrow>
   (field_name \<times> msg list \<times> unit validator list) list" where
  "UpdateUserForm_fields L st self f =
     [(F_organization, [],
         [pre_validate_choice [''uguis'', ''other''] (upd_organization f),
          DataRequired MsgSelectOrganization (upd_organization f)]),
      (F_display_name, [],
         [DataRequired MsgFieldRequired (upd_display_name f),
          Length_v 3 30 (MsgLengthBetween 3 30) (upd_display_name f)]),
      (F_user_name, [], [DataRequired MsgFieldRequired (upd_user_name f)]),
      (F_furigana, [], [DataRequired MsgFieldRequired (upd_furigana f)]),
      (F_phone, [],
         [DataRequired MsgFieldRequired (upd_phone f),
          Length_v 10 15 MsgPhoneLength (upd_phone f)]),
      (F_post_code, [],
         [DataRequired MsgFieldRequired (upd_post_code f),
          Length_v 7 7 MsgPostCodeLength (upd_post_code f)]),
      (F_address, [],
         [DataRequired MsgFieldRequired (upd_address f),
          Length_v (-1) 100 MsgAddressLength (upd_address f)]),
      (F_email, [],
         [DataRequired MsgFieldRequired (upd_email f),
          Email_v L MsgEmailFormat (upd_email f),
          UpdateUserForm_validate_email st self (upd_email f)]),
      (F_password, [],
         [Optional_v (upd_password f),
          Length_v 8 (-1) MsgPasswordLength (upd_password f),
          EqualTo (upd_pass_confirm f) MsgPasswordMismatch (upd_password f)]),
      (F_pass_confirm, [], []),
      (F_gender, [],
         [pre_validate_choice [[], ''male'', ''female'', ''other''] (upd_gender f),
          DataRequired MsgFieldRequired (upd_gender f)]),
      (F_date_of_birth, date_process_errors L (upd_date_of_birth f),
         [DataRequired_date MsgFieldRequired (strptime_ymd L (upd_date_of_birth f))])]"

definition UpdateUserForm_validate ::
  "lib \<Rightarrow> store \<Rightarrow> UpdateUserForm_self \<Rightarrow> UpdateUserForm \<Rightarrow>
   error + (field_name \<times> msg list) list" where
  "UpdateUserForm_validate L st self f =
     bindE (validate_fields (UpdateUserForm_fields L st self f) ()) (\<lambda>(s, errs). Inr errs)"

subsection \<open>LoginForm (lines 320-373)\<close>

record LoginForm =
  login_email :: string
  login_password :: string
  login_remember :: bool

text \<open>
  The state of the form is \<^verbatim>\<open>self.user\<close>. In \<^verbatim>\<open>validate_email\<close> the \<^verbatim>\<open>raise\<close> of line 355
  stands inside the \<^verbatim>\<open>try\<close> whose \<^verbatim>\<open>except Exception\<close> (line 360) raises the error of line
  361. \<^verbatim>\<open>validate_password\<close> has no \<^verbatim>\<open>try\<close>: a stored item without \<^verbatim>\<open>password\<close> raises
  \<^verbatim>\<open>KeyError\<close> out of the validation.
\<close>

definition LoginForm_validate_email :: "store \<Rightarrow> string \<Rightarrow> (item option) validator" where
  "LoginForm_validate_email st d user errs =
     (case bindE (users_query_email st d) (\<lambda>items.
             case items of [] \<Rightarrow> Inl (ValidationError MsgEmailNotRegistered)
             | it # rest \<Rightarrow> Inr it) of
        Inr it \<Rightarrow> (Inr (), Some it, errs)
      | Inl e \<Rightarrow> (Inl (ValidationError MsgLoginProcessingError), user, errs))"

definition LoginForm_validate_password :: "lib \<Rightarrow> string \<Rightarrow> (item option) validator" where
  "LoginForm_validate_password L d user errs =
     (case user of
        None \<Rightarrow> (Inl (ValidationError MsgCheckEmailFirst), user, errs)
      | Some it \<Rightarrow>
          (case attr_S it ''password'' of
             Inl e \<Rightarrow> (Inl e, user, errs)
           | Inr h \<Rightarrow>
               if check_password_hash L h d then (Inr (), user, errs)
               else (Inl (ValidationError MsgPasswordIncorrect), user, errs)))"

definition LoginForm_fields ::
  "lib \<Rightarrow> store \<Rightarrow> LoginForm \<Rightarrow> (field_name \<times> msg list \<times> (item option) validator list) list" where
  "LoginForm_fields L st f =
     [(F_email, [],
         [DataRequired MsgEnterEmail (login_email f),
          Email_v L MsgLoginEmailFormat (login_email f),
          LoginForm_validate_email st (login_email f)]),
      (F_password, [],
         [DataRequired MsgEnterPassword (login_password f),
          LoginForm_validate_password L (login_password f)])]"

definition LoginForm_validate ::
  "lib \<Rightarrow> store \<Rightarrow> LoginForm \<Rightarrow> error + (field_name \<times> msg list) list" where
  "LoginForm_validate L st f =
     bindE (validate_fields (LoginForm_fields L st f) None) (\<lambda>(user, errs). Inr errs)"

section \<open>Request handlers\<close>

text \<open>
  What a view answers: \<^verbatim>\<open>redirect(url_for(endpoint))\<close>, \<^verbatim>\<open>redirect(url)\<close>,
  \<^verbatim>\<open>render_template\<close> of a form (with \<^verbatim>\<open>form.errors\<close> and the field values the view itself
  writes into the form) or of a post, \<^verbatim>\<open>abort(code)\<close> (an HTTP exception that no
  \<^verbatim>\<open>except\<close> clause of the module catches), or an exception that leaves the view.
  A reply also holds the store after the request, the messages flashed, and the user id
  the session is bound to.
\<close>

datatype http_method = GET | POST

datatype endpoint = Index | Signup | Login | UserMaintenance

datatype template = SignupHtml | LoginHtml | AccountHtml

datatype response =
    Redirect endpoint
  | RedirectUrl string
  | Render template "(field_name \<times> msg list) list" "(field_name \<times> string) list"
  | RenderPost item
  | Abort nat
  | Uncaught error

record reply =
  resp :: response
  store_after :: store
  flashes :: "(msg \<times> category) list"
  session_after :: "string option"

definition answer :: "response \<Rightarrow> store \<Rightarrow> (msg \<times> category) list \<Rightarrow> string option \<Rightarrow> reply" where
  "answer r st fl sess = \<lparr>resp = r, store_after = st, flashes = fl, session_after = sess\<rparr>"

text \<open>
  \<^verbatim>\<open>@login_required\<close>: without a principal the request is answered by Flask-Login, which
  flashes \<^verbatim>\<open>login_message\<close> and redirects to the login view; otherwise the view runs with
  \<^verbatim>\<open>current_user\<close>.
\<close>

definition login_required ::
  "world \<Rightarrow> store \<Rightarrow> string option \<Rightarrow> (User \<Rightarrow> reply) \<Rightarrow> reply" where
  "login_required w st sess view =
     (case current_user w st sess of
        None \<Rightarrow> answer (Redirect Login) st [(MsgLoginRequired, CatMessage)] sess
      | Some cu \<Rightarrow> view cu)"

subsection \<open>signup (lines 381-465)\<close>

definition flash_form_errors :: "(field_name \<times> msg list) list \<Rightarrow> (msg \<times> category) list" where
  "flash_form_errors errs =
     concat (map (\<lambda>(n, es). map (\<lambda>e. (FieldMsg n e, CatError)) es) errs)"

definition new_user_item :: "lib \<Rightarrow> world \<Rightarrow> RegistrationForm \<Rightarrow> nat \<times> nat \<times> nat \<Rightarrow> item" where
  "new_user_item L w f d =
     [(''user_id'', S (uuid4 w)),
      (''organization'', S (organization_data f)),
      (''address'', S (reg_address f)),
      (''administrator'', BOOL False),
      (''created_at'', S (now w)),
      (''date_of_birth'', S (strftime_ymd L d)),
      (''display_name'', S (reg_display_name f)),
      (''email'', S (reg_email f)),
      (''furigana'', S (reg_furigana f)),
      (''gender'', S (reg_gender f)),
      (''password'', S (generate_password_hash L (salt w) (reg_password f))),
      (''phone'', S (reg_phone f)),
      (''post_code'', S (reg_post_code f)),
      (''updated_at'', S (now w)),
      (''user_name'', S (reg_user_name f))]"

definition signup_error_msg :: "error_code \<Rightarrow> msg" where
  "signup_error_msg c =
     (if c = ConditionalCheckFailedException then MsgEmailAlreadyRegistered
      else if c = ValidationException then MsgInvalidInput
      else if c = ResourceNotFoundException then MsgSystemError
      else MsgAccountCreationError)"

definition signup ::
  "lib \<Rightarrow> world \<Rightarrow> store \<Rightarrow> string option \<Rightarrow> http_method \<Rightarrow> RegistrationForm \<Rightarrow> reply" where
  "signup L w st sess m f =
     (if m = POST then
        (case RegistrationForm_validate L st f of
           Inl e \<Rightarrow> answer (Uncaught e) st [] sess
         | Inr errs \<Rightarrow>
             if errs = [] then
               (case bindE (users_query_email st (reg_email f)) (\<lambda>email_check.
                       if email_check \<noteq> [] then
                         Inr (answer (Redirect Signup) st [(MsgEmailAlreadyRegistered, CatError)] sess)
                       else
                         bindE (case strptime_ymd L (reg_date_of_birth f) of
                                  None \<Rightarrow> Inl AttributeError | Some d \<Rightarrow> Inr d) (\<lambda>d.
                         bindE (users_put_item st (uuid4 w) (new_user_item L w f d)) (\<lambda>st'.
                         Inr (answer (Redirect Login) st' [(MsgAccountCreated, CatSuccess)] sess)))) of
                  Inr r \<Rightarrow> r
                | Inl (ClientError c) \<Rightarrow>
                    answer (Redirect Signup) st [(signup_error_msg c, CatError)] sess
                | Inl e \<Rightarrow> answer (Redirect Signup) st [(MsgUnexpectedError, CatError)] sess)
             else answer (Render SignupHtml errs []) st (flash_form_errors errs) sess)
      else answer (Render SignupHtml [] []) st [] sess)"

subsection \<open>login and is_safe_url (lines 467-547)\<close>

text \<open>
  \<^verbatim>\<open>is_safe_url\<close> is defined twice with the same body (lines 537 and 543). It parses the
  host URL, joins the target to it and parses the result; each of the three calls may
  raise.
\<close>

definition is_safe_url :: "lib \<Rightarrow> string \<Rightarrow> string \<Rightarrow> error + bool" where
  "is_safe_url L host_url target =
     bindE (urlparse L host_url) (\<lambda>ref_url.
     bindE (urljoin L host_url target) (\<lambda>joined.
     bindE (urlparse L joined) (\<lambda>test_url.
     Inr (fst test_url \<in> set [''http'', ''https''] \<and> snd ref_url = snd test_url))))"

text \<open>
  Lines 521-524: \<^verbatim>\<open>request.args.get('next')\<close> is absent, empty or a string; the index
  page is \<^verbatim>\<open>url_for('index')\<close>. \<^verbatim>\<open>is_safe_url\<close> is called only for a target that is not
  empty.
\<close>

definition next_page :: "lib \<Rightarrow> string \<Rightarrow> string option \<Rightarrow> error + response" where
  "next_page L host_url next_arg =
     (case next_arg of
        None \<Rightarrow> Inr (Redirect Index)
      | Some t \<Rightarrow>
          if t = [] then Inr (Redirect Index)
          else bindE (is_safe_url L host_url t) (\<lambda>safe.
                 Inr (if safe then RedirectUrl t else Redirect Index)))"

text \<open>
  The item of the user as \<^verbatim>\<open>login\<close> reads it from the resource (lines 493-505) and as
  \<^verbatim>\<open>load_user\<close> reads it from the client: the same eleven attributes, a missing one raises
  \<^verbatim>\<open>KeyError\<close>. (An attribute of these that is stored with a type other than \<^verbatim>\<open>S\<close> counts as
  missing; the program never writes one.) Lines 517-524 run in this order: \<^verbatim>\<open>login_user\<close>
  binds the session, the success message is flashed, and only then the target is
  examined. An exception of \<^verbatim>\<open>is_safe_url\<close> therefore reaches \<^verbatim>\<open>except Exception\<close>
  (line 530) with the session bound and the message flashed; the handler adds the message
  of line 532 and renders the login page.
\<close>

definition login ::
  "lib \<Rightarrow> world \<Rightarrow> store \<Rightarrow> string option \<Rightarrow> http_method \<Rightarrow> LoginForm \<Rightarrow> string option \<Rightarrow>
   string \<Rightarrow> reply" where
  "login L w st sess m f next_arg host_url =
     (case current_user w st sess of
        Some cu \<Rightarrow> answer (Redirect Index) st [] sess
      | None \<Rightarrow>
          if m = POST then
            (case LoginForm_validate L st f of
               Inl e \<Rightarrow> answer (Uncaught e) st [] sess
             | Inr errs \<Rightarrow>
                 if errs = [] then
                   (case bindE (users_query_email st (lower (login_email f))) (\<lambda>items.
                           case items of
                             [] \<Rightarrow>
                               Inr (answer (Render LoginHtml [] []) st
                                      [(MsgInvalidCredentials, CatError)] sess)
                           | user_data # rest \<Rightarrow>
                               (case user_of_client_item w user_data of
                                  Inl KeyError \<Rightarrow>
                                    Inr (answer (Render LoginHtml [] []) st
                                           [(MsgUserDataLoadFailed, CatError)] sess)
                                | Inl e \<Rightarrow> Inl e
                                | Inr user \<Rightarrow>
                                    if check_password L user (login_password f) then
                                      (case next_page L host_url next_arg of
                                         Inr r \<Rightarrow>
                                           Inr (answer r st [(MsgLoginSuccess, CatSuccess)]
                                                  (Some (get_id user)))
                                       | Inl e \<Rightarrow>
                                           Inr (answer (Render LoginHtml [] []) st
                                                  [(MsgLoginSuccess, CatSuccess),
                                                   (MsgLoginProcessingError, CatError)]
                                                  (Some (get_id user))))
                                    else
                                      Inr (answer (Render LoginHtml [] []) st
                                             [(MsgInvalidCredentials, CatError)] sess))) of
                      Inr r \<Rightarrow> r
                    | Inl e \<Rightarrow>
                        answer (Render LoginHtml [] []) st
                          [(MsgLoginProcessingError, CatError)] sess)
                 else answer (Render LoginHtml errs []) st [] sess)
          else answer (Render LoginHtml [] []) st [] sess)"

subsection \<open>account (lines 581-651)\<close>

definition account_assignments :: "lib \<Rightarrow> world \<Rightarrow> UpdateUserForm \<Rightarrow> (string \<times> attrval) list" where
  "account_assignments L w f =
     (if upd_user_name f \<noteq> [] then [(''user_name'', S (upd_user_name f))] else []) @
     (if upd_email f \<noteq> [] then [(''email'', S (upd_email f))] else []) @
     (if upd_password f \<noteq> []
      then [(''password'', S (generate_password_hash L (salt w) (upd_password f)))] else []) @
     [(''updated_at'', S (now w))]"

definition get_S_default :: "item \<Rightarrow> string \<Rightarrow> string" where
  "get_S_default it k = (case get_S it k of None \<Rightarrow> [] | Some v \<Rightarrow> v)"

text \<open>
  The view is one \<^verbatim>\<open>try\<close> with \<^verbatim>\<open>except ClientError\<close>; every other exception leaves it.
  Line 600 calls \<^verbatim>\<open>UpdateUserForm(user_id)\<close>, with one argument.
\<close>

definition account ::
  "lib \<Rightarrow> world \<Rightarrow> store \<Rightarrow> string option \<Rightarrow> User \<Rightarrow> http_method \<Rightarrow> UpdateUserForm \<Rightarrow>
   string \<Rightarrow> reply" where
  "account L w st sess cu m f uid_arg =
     (case bindE (users_get_item st uid_arg) (\<lambda>found.
             case found of
               None \<Rightarrow> Inr (answer (Abort 404) st [] sess)
             | Some user \<Rightarrow>
                 bindE (attr_S user ''user_id'') (\<lambda>uid.
                   if uid \<noteq> get_id cu \<and> \<not> is_administrator cu then
                     Inr (answer (Abort 403) st [] sess)
                   else
                     bindE (UpdateUserForm_init [Str uid_arg]) (\<lambda>self.
                       if m = POST then
                         bindE (UpdateUserForm_validate L st self f) (\<lambda>errs.
                           if errs = [] then
                             bindE (users_update_item st uid_arg (account_assignments L w f))
                               (\<lambda>st'.
                                 Inr (answer (Redirect UserMaintenance) st'
                                        [(MsgAccountUpdated, CatSuccess)] sess))
                           else Inr (answer (Render AccountHtml errs []) st [] sess))
                       else
                         Inr (answer
                                (Render AccountHtml []
                                   [(F_user_name, get_S_default user ''user_name''),
                                    (F_email, get_S_default user ''email'')])
                                st [] sess)))) of
        Inr r \<Rightarrow> r
      | Inl (ClientError c) \<Rightarrow>
          answer (Redirect UserMaintenance) st [(MsgAccountDatabaseError, CatError)] sess
      | Inl e \<Rightarrow> answer (Uncaught e) st [] sess)"

definition route_account ::
  "lib \<Rightarrow> world \<Rightarrow> store \<Rightarrow> string option \<Rightarrow> http_method \<Rightarrow> UpdateUserForm \<Rightarrow> string \<Rightarrow>
   reply" where
  "route_account L w st sess m f uid_arg =
     login_required w st sess (\<lambda>cu. account L w st sess cu m f uid_arg)"

subsection \<open>update (lines 655-725)\<close>

record post_form =
  title :: string
  body :: string
  category_id :: string

definition update_assignments :: "world \<Rightarrow> post_form \<Rightarrow> (string \<times> attrval) list" where
  "update_assignments w f =
     (if title f \<noteq> [] then [(''title'', S (title f))] else []) @
     (if body f \<noteq> [] then [(''body'', S (body f))] else []) @
     (if category_id f \<noteq> [] then [(''category_id'', S (category_id f))] else []) @
     [(''updated_at'', S (now w))]"

text \<open>
  The attributes of the application object: those the module assigns in \<^verbatim>\<open>create_app\<close>
  (lines 61-68) and those of Flask that it uses. Reading any other attribute raises
  \<^verbatim>\<open>AttributeError\<close>. The module reads \<^verbatim>\<open>app.posts_table_name\<close> (lines 663, 710) and never
  assigns it.
\<close>

definition app_attributes :: "string list" where
  "app_attributes =
     [''config'', ''logger'', ''route'', ''app_context'', ''run'', ''s3'', ''dynamodb'',
      ''dynamodb_resource'', ''table_name'', ''table'']"

definition app_attribute :: "string \<Rightarrow> error + unit" where
  "app_attribute n = (if n \<in> set app_attributes then Inr () else Inl AttributeError)"

text \<open>
  The two branches of the view as they are written, for a table name that resolves: GET
  fetches the post and compares its owner with the principal (lines 660-679); POST builds
  the assignments and updates the item (lines 682-720) without reading the post or the
  principal.
\<close>

definition update_branches ::
  "world \<Rightarrow> store \<Rightarrow> string option \<Rightarrow> User \<Rightarrow> http_method \<Rightarrow> post_form \<Rightarrow> string \<Rightarrow>
   error + reply" where
  "update_branches w st sess cu m f post_id =
     (if m = GET then
        bindE (posts_get_item st post_id) (\<lambda>found.
          case found of
            None \<Rightarrow> Inr (answer (Redirect Index) st [(MsgPostNotFound, CatError)] sess)
          | Some post \<Rightarrow>
              if get_S post ''user_id'' \<noteq> Some (get_id cu) \<and> \<not> is_administrator cu then
                Inr (answer (Redirect Index) st [(MsgNoEditPermission, CatError)] sess)
              else Inr (answer (RenderPost post) st [] sess))
      else
        bindE (posts_update_item st post_id (update_assignments w f)) (\<lambda>st'.
          Inr (answer (Redirect Index) st' [(MsgPostUpdated, CatSuccess)] sess)))"

text \<open>
  In both branches \<^verbatim>\<open>app.posts_table_name\<close> is an argument of the store call and is
  evaluated before the call is made; nothing that can be observed comes before it. The
  view is one \<^verbatim>\<open>try\<close> with \<^verbatim>\<open>except ClientError\<close>.
\<close>

definition update ::
  "world \<Rightarrow> store \<Rightarrow> string option \<Rightarrow> User \<Rightarrow> http_method \<Rightarrow> post_form \<Rightarrow> string \<Rightarrow> reply" where
  "update w st sess cu m f post_id =
     (case bindE (app_attribute ''posts_table_name'') (\<lambda>u.
             update_branches w st sess cu m f post_id) of
        Inr r \<Rightarrow> r
      | Inl (ClientError c) \<Rightarrow>
          answer (Redirect Index) st [(MsgPostDatabaseError, CatError)] sess
      | Inl e \<Rightarrow> answer (Uncaught e) st [] sess)"

definition route_update ::
  "world \<Rightarrow> store \<Rightarrow> string option \<Rightarrow> http_method \<Rightarrow> post_form \<Rightarrow> string \<Rightarrow> reply" where
  "route_update w st sess m f post_id =
     login_required w st sess (\<lambda>cu. update w st sess cu m f post_id)"

subsection \<open>delete (lines 728-734)\<close>

text \<open>
  The names the module binds at its top level: its imports, its assignments and its
  \<^verbatim>\<open>def\<close> and \<^verbatim>\<open>class\<close> statements. A name that is neither local, nor one of these, nor a
  builtin raises \<^verbatim>\<open>NameError\<close> when it is evaluated.
\<close>

definition module_globals :: "string list" where
  "module_globals =
     [''Flask'', ''FlaskForm'', ''render_template'', ''request'', ''redirect'', ''url_for'',
      ''flash'', ''abort'', ''session'', ''UserMixin'', ''LoginManager'', ''login_user'',
      ''logout_user'', ''login_required'', ''current_user'', ''generate_password_hash'',
      ''check_password_hash'', ''ValidationError'', ''StringField'', ''PasswordField'',
      ''SubmitField'', ''SelectField'', ''DateField'', ''BooleanField'', ''DataRequired'',
      ''Email'', ''EqualTo'', ''Length'', ''Optional'', ''pytz'', ''os'', ''boto3'',
      ''secure_filename'', ''uuid'', ''datetime'', ''date'', ''io'', ''Image'',
      ''relativedelta'', ''ClientError'', ''init_tables'', ''logging'', ''time'', ''random'',
      ''urlparse'', ''urljoin'', ''load_dotenv'', ''logger'', ''app'', ''login_manager'',
      ''create_app'', ''tokyo_time'', ''load_user'', ''RegistrationForm'', ''UpdateUserForm'',
      ''User'', ''get_user_from_dynamodb'', ''LoginForm'', ''index'', ''signup'', ''login'',
      ''is_safe_url'', ''logout'', ''user_maintenance'', ''account'', ''update'', ''delete'']"

definition global_name :: "string \<Rightarrow> error + unit" where
  "global_name n = (if n \<in> set module_globals then Inr () else Inl NameError)"

text \<open>
  The view evaluates \<^verbatim>\<open>Post\<close> (line 731), then \<^verbatim>\<open>db\<close> (line 732). What follows the two
  names reads the three statements against the posts table: the record with that key is
  removed and the client is sent to \<^verbatim>\<open>/\<close>. The path segment \<^verbatim>\<open><int:id>\<close> is kept as the
  string of its digits. The route matches a segment of one or more digits; with any other
  segment the path matches no route of the module and the answer is 404, before
  \<^verbatim>\<open>login_required\<close> runs.
\<close>

definition is_digit :: "char \<Rightarrow> bool" where
  "is_digit c = (48 \<le> (of_char c :: nat) \<and> (of_char c :: nat) \<le> 57)"

definition delete :: "store \<Rightarrow> string option \<Rightarrow> User \<Rightarrow> string \<Rightarrow> reply" where
  "delete st sess cu post_id =
     (case bindE (global_name ''Post'') (\<lambda>u.
           bindE (global_name ''db'') (\<lambda>u.
           bindE (call st (st\<lparr>posts_table := delete_item (posts_table st) ''post_id'' post_id\<rparr>))
             (\<lambda>st'. Inr (answer (RedirectUrl ''/'') st' [] sess)))) of
        Inr r \<Rightarrow> r
      | Inl e \<Rightarrow> answer (Uncaught e) st [] sess)"

definition route_delete :: "world \<Rightarrow> store \<Rightarrow> string option \<Rightarrow> string \<Rightarrow> reply" where
  "route_delete w st sess segment =
     (if segment \<noteq> [] \<and> list_all is_digit segment
      then login_required w st sess (\<lambda>cu. delete st sess cu segment)
      else answer (Abort 404) st [] sess)"

section \<open>A concrete library, for evaluating the handlers on examples\<close>

text \<open>
  The general theorems below hold for every library \<open>L\<close>. To run a handler on a concrete
  request the library functions need values; these stand in for them. The password hash
  has werkzeug's shape \<^verbatim>\<open>method$salt$digest\<close> with the salt followed by the password as
  digest; the address check asks for one \<^verbatim>\<open>@\<close>, a local part and a dot in the domain; the
  date is four digits, a month and a day. \<open>demo_urlparse\<close> and \<open>demo_urljoin\<close> follow
  \<^verbatim>\<open>urllib.parse\<close> on scheme and netloc: the scheme is the text before the first colon
  when it starts with a letter and consists of scheme characters, in lower case; the
  netloc is what follows \<^verbatim>\<open>//\<close> up to the next \<^verbatim>\<open>/\<close>, \<^verbatim>\<open>?\<close> or \<^verbatim>\<open>#\<close>, and a netloc
  with one square bracket but not the other raises \<^verbatim>\<open>ValueError\<close>; a target with
  another scheme than the base, or a scheme that does not allow relative references, is
  returned as it is; a target with a netloc keeps it; any other target takes the base's
  scheme and netloc (the path is joined without removing dot segments).
\<close>

definition split_at :: "char \<Rightarrow> string \<Rightarrow> string \<times> string" where
  "split_at c s = (takeWhile (\<lambda>x. x \<noteq> c) s, drop 1 (dropWhile (\<lambda>x. x \<noteq> c) s))"

definition demo_generate_password_hash :: "string \<Rightarrow> string \<Rightarrow> string" where
  "demo_generate_password_hash sa p = ''pbkdf2:sha256$'' @ sa @ ''$'' @ sa @ p"

definition demo_check_password_hash :: "string \<Rightarrow> string \<Rightarrow> bool" where
  "demo_check_password_hash h p =
     (2 \<le> length (filter (\<lambda>x. x = CHR ''$'') h) \<and>
      (let sa = fst (split_at CHR ''$'' (snd (split_at CHR ''$'' h)));
           hv = snd (split_at CHR ''$'' (snd (split_at CHR ''$'' h)))
       in hv = sa @ p))"

definition demo_email_syntax :: "string \<Rightarrow> bool" where
  "demo_email_syntax s =
     (CHR ''@'' \<in> set s \<and> fst (split_at CHR ''@'' s) \<noteq> [] \<and>
      CHR ''@'' \<notin> set (snd (split_at CHR ''@'' s)) \<and>
      CHR ''.'' \<in> set (snd (split_at CHR ''@'' s)) \<and> \<not> list_ex is_space s)"

definition digit_of :: "char \<Rightarrow> nat option" where
  "digit_of c =
     (let n = (of_char c :: nat) in if 48 \<le> n \<and> n \<le> 57 then Some (n - 48) else None)"

fun number_of :: "string \<Rightarrow> nat \<Rightarrow> nat option" where
  "number_of [] acc = Some acc"
| "number_of (c # cs) acc =
     (case digit_of c of None \<Rightarrow> None | Some d \<Rightarrow> number_of cs (10 * acc + d))"

definition demo_strptime_ymd :: "string \<Rightarrow> (nat \<times> nat \<times> nat) option" where
  "demo_strptime_ymd s =
     (let y = fst (split_at CHR ''-'' s);
          mo = fst (split_at CHR ''-'' (snd (split_at CHR ''-'' s)));
          d = snd (split_at CHR ''-'' (snd (split_at CHR ''-'' s)))
      in if length y = 4 \<and> mo \<noteq> [] \<and> d \<noteq> [] then
           (case (number_of y 0, number_of mo 0, number_of d 0) of
              (Some a, Some b, Some c) \<Rightarrow>
                if 1 \<le> b \<and> b \<le> 12 \<and> 1 \<le> c \<and> c \<le> 31 then Some (a, b, c) else None
            | other \<Rightarrow> None)
         else None)"

definition digit_char :: "nat \<Rightarrow> char" where
  "digit_char n = char_of (48 + n mod 10)"

definition demo_strftime_ymd :: "nat \<times> nat \<times> nat \<Rightarrow> string" where
  "demo_strftime_ymd ymd =
     (case ymd of (y, mo, d) \<Rightarrow>
        [digit_char (y div 1000), digit_char (y div 100), digit_char (y div 10), digit_char y]
        @ ''-'' @ [digit_char (mo div 10), digit_char mo]
        @ ''-'' @ [digit_char (d div 10), digit_char d])"

definition scheme_char :: "char \<Rightarrow> bool" where
  "scheme_char c =
     (let n = (of_char c :: nat)
      in (97 \<le> n \<and> n \<le> 122) \<or> (65 \<le> n \<and> n \<le> 90) \<or> (48 \<le> n \<and> n \<le> 57)
         \<or> c \<in> set ''+-.'')"

definition ascii_alpha :: "char \<Rightarrow> bool" where
  "ascii_alpha c =
     (let n = (of_char c :: nat) in (97 \<le> n \<and> n \<le> 122) \<or> (65 \<le> n \<and> n \<le> 90))"

definition split_scheme :: "string \<Rightarrow> string \<times> string" where
  "split_scheme url =
     (let pre = takeWhile (\<lambda>x. x \<noteq> CHR '':'') url
      in if CHR '':'' \<in> set url \<and> pre \<noteq> [] \<and> ascii_alpha (hd pre) \<and> list_all scheme_char pre
         then (lower pre, drop (length pre + 1) url)
         else ([], url))"

definition split_netloc :: "string \<Rightarrow> string \<times> string" where
  "split_netloc r =
     (if take 2 r = ''//''
      then (takeWhile (\<lambda>x. x \<notin> set ''/?#'') (drop 2 r),
            dropWhile (\<lambda>x. x \<notin> set ''/?#'') (drop 2 r))
      else ([], r))"

definition bad_brackets :: "string \<Rightarrow> bool" where
  "bad_brackets netloc =
     ((CHR ''['' \<in> set netloc \<and> CHR '']'' \<notin> set netloc)
      \<or> (CHR '']'' \<in> set netloc \<and> CHR ''['' \<notin> set netloc))"

definition demo_urlsplit :: "string \<Rightarrow> error + string \<times> string \<times> string" where
  "demo_urlsplit url =
     (let scheme = fst (split_scheme url);
          netloc = fst (split_netloc (snd (split_scheme url)));
          path = snd (split_netloc (snd (split_scheme url)))
      in if bad_brackets netloc then Inl ValueError else Inr (scheme, netloc, path))"

definition demo_urlparse :: "string \<Rightarrow> error + string \<times> string" where
  "demo_urlparse url =
     bindE (demo_urlsplit url) (\<lambda>(scheme, netloc, path). Inr (scheme, netloc))"

definition uses_relative :: "string list" where
  "uses_relative =
     [[], ''ftp'', ''http'', ''gopher'', ''nntp'', ''imap'', ''wais'', ''file'', ''https'',
      ''shttp'', ''mms'', ''prospero'', ''rtsp'', ''rtspu'', ''sftp'', ''svn'', ''svn+ssh'',
      ''ws'', ''wss'']"

definition demo_urljoin :: "string \<Rightarrow> string \<Rightarrow> error + string" where
  "demo_urljoin base url =
     (if base = [] then Inr url
      else if url = [] then Inr base
      else
        bindE (demo_urlsplit base) (\<lambda>(bscheme, bnetloc, bpath).
        bindE (demo_urlsplit url) (\<lambda>(uscheme, netloc, path).
          let scheme = (if uscheme = [] then bscheme else uscheme)
          in Inr (if scheme = bscheme \<and> scheme \<in> set uses_relative then
                    (if netloc \<noteq> [] then scheme @ ''://'' @ netloc @ path
                     else if take 1 path = ''/'' then scheme @ ''://'' @ bnetloc @ path
                     else scheme @ ''://'' @ bnetloc
                          @ rev (dropWhile (\<lambda>x. x \<noteq> CHR ''/'') (rev bpath)) @ path)
                  else url))))"

definition demo_lib :: lib where
  "demo_lib =
     \<lparr>check_password_hash = demo_check_password_hash,
      generate_password_hash = demo_generate_password_hash,
      email_syntax = demo_email_syntax,
      strptime_ymd = demo_strptime_ymd,
      strftime_ymd = demo_strftime_ymd,
      urljoin = demo_urljoin,
      urlparse = demo_urlparse\<rparr>"

definition demo_world :: world where
  "demo_world =
     \<lparr>now = ''2024-05-01T10:00:00'',
      uuid4 = ''7b0c8a0e-0000-4000-8000-000000000001'',
      salt = ''s4lt''\<rparr>"

section \<open>Example states\<close>

text \<open>
  A member item as \<^verbatim>\<open>signup\<close> writes it (all fifteen attributes), a post item, and three
  stores: one with two members, an administrator and two posts; one whose only member
  registered an address with capital letters; that one with a second member under the
  lower-case spelling of the same address and another password; and with a second member
  under the lower-case spelling and the same password.
\<close>

definition member :: "string \<Rightarrow> string \<Rightarrow> string \<Rightarrow> bool \<Rightarrow> item" where
  "member uid em pw adm =
     [(''user_id'', S uid), (''organization'', S ''uguis''), (''address'', S ''1-2-3 Tokyo''),
      (''administrator'', BOOL adm), (''created_at'', S ''2024-01-01T00:00:00''),
      (''date_of_birth'', S ''1990-01-01''), (''display_name'', S ''Taro''),
      (''email'', S em), (''furigana'', S ''taro''), (''gender'', S ''male''),
      (''password'', S (demo_generate_password_hash ''abc'' pw)),
      (''phone'', S ''0312345678''), (''post_code'', S ''1000001''),
      (''updated_at'', S ''2024-01-01T00:00:00''), (''user_name'', S ''taro'')]"

definition post_of :: "string \<Rightarrow> string \<Rightarrow> string \<Rightarrow> item" where
  "post_of pid owner t =
     [(''post_id'', S pid), (''user_id'', S owner), (''title'', S t), (''body'', S ''text''),
      (''category_id'', S ''1''), (''created_at'', S ''2024-01-01T00:00:00''),
      (''updated_at'', S ''2024-01-01T00:00:00'')]"

definition example_store :: store where
  "example_store =
     \<lparr>users_table = [member ''u1'' ''a@example.com'' ''password123'' False,
                     member ''u2'' ''b@example.com'' ''hunter2222'' False,
                     member ''adm'' ''admin@example.com'' ''adminpass'' True],
      posts_table = [post_of ''P1'' ''u1'' ''old'', post_of ''1'' ''u1'' ''first''],
      fault = None\<rparr>"

definition mixed_case_store :: store where
  "mixed_case_store =
     \<lparr>users_table = [member ''u1'' ''Taro@Example.com'' ''password123'' False],
      posts_table = [],
      fault = None\<rparr>"

definition other_password_twin_store :: store where
  "other_password_twin_store =
     \<lparr>users_table = [member ''u1'' ''Taro@Example.com'' ''password123'' False,
                     member ''u2'' ''taro@example.com'' ''different99'' False],
      posts_table = [],
      fault = None\<rparr>"

definition twin_store :: store where
  "twin_store =
     \<lparr>users_table = [member ''u1'' ''Taro@Example.com'' ''password123'' False,
                     member ''u2'' ''taro@example.com'' ''password123'' False],
      posts_table = [],
      fault = None\<rparr>"

text \<open>The principal \<^verbatim>\<open>load_user\<close> builds for the member \<^verbatim>\<open>u2\<close> of the first store.\<close>

definition principal_u2 :: User where
  "principal_u2 =
     User_init demo_world ''u2'' ''Taro'' ''taro'' ''taro'' ''b@example.com''
       (demo_generate_password_hash ''abc'' ''hunter2222'') ''male'' ''1990-01-01'' ''1000001''
       ''1-2-3 Tokyo'' ''0312345678''"

definition example_registration :: RegistrationForm where
  "example_registration =
     \<lparr>reg_organization = Some ''uguis'', reg_display_name = ''Hanako'',
      reg_user_name = ''hanako'',
      reg_furigana = ''hanako'', reg_phone = ''0398765432'', reg_post_code = ''1500001'',
      reg_address = ''Shibuya'', reg_email = ''a@example.com'',
      reg_email_confirm = ''a@example.com'', reg_password = ''password123'',
      reg_pass_confirm = ''password123'', reg_gender = ''female'',
      reg_date_of_birth = ''1995-04-03''\<rparr>"

definition only_email :: UpdateUserForm where
  "only_email =
     \<lparr>upd_organization = [], upd_display_name = [], upd_user_name = [], upd_furigana = [],
      upd_phone = [], upd_post_code = [], upd_address = [], upd_email = ''new@example.com'',
      upd_password = [], upd_pass_confirm = [], upd_gender = [], upd_date_of_birth = []\<rparr>"

definition credentials :: "string \<Rightarrow> string \<Rightarrow> LoginForm" where
  "credentials e p = \<lparr>login_email = e, login_password = p, login_remember = False\<rparr>"

definition new_title :: post_form where
  "new_title = \<lparr>title = ''changed'', body = [], category_id = []\<rparr>"

section \<open>Properties of the store calls\<close>

lemma get_item_has_key: "get_item tbl k v = Some it \<Longrightarrow> has_key k v it"
  by (auto simp: get_item_def find_Some_iff)

lemma has_key_attr_S: "has_key k v it \<Longrightarrow> attr_S it k = Inr v"
  by (simp add: has_key_def attr_S_def)

lemma strip_nonempty: "strip d \<noteq> [] \<Longrightarrow> d \<noteq> []"
  by (auto simp: strip_def)

lemma bindE_Inr_iff:
  "bindE m f = Inr y \<longleftrightarrow> (\<exists>x. m = Inr x \<and> f x = Inr y)"
  by (cases m) (auto simp: bindE_def)

lemma user_of_client_item_password:
  "user_of_client_item w it = Inr u \<Longrightarrow> attr_S it ''password'' = Inr (password_hash u)"
  by (auto simp: user_of_client_item_def bindE_Inr_iff User_init_def)

section \<open>The post handlers\<close>

text \<open>
  \<^verbatim>\<open>update\<close> ends in \<^verbatim>\<open>AttributeError\<close> for every request, GET or POST, with the store as
  it was: the table name it passes to the store was never assigned.
\<close>

lemma update_always_raises:
  "update w st sess cu m f pid = answer (Uncaught AttributeError) st [] sess"
  by (simp add: update_def app_attribute_def app_attributes_def bindE_def)

text \<open>
  The branches themselves, for a table name that resolves: the POST branch does not
  depend on the principal or on the stored post. Whenever the store answers, it applies
  the assignments and reports success.
\<close>

lemma update_branches_POST_ignores_principal:
  "fault st = None \<Longrightarrow>
   update_branches w st sess cu POST f pid
     = Inr (answer (Redirect Index)
              (st\<lparr>posts_table :=
                    update_item (posts_table st) ''post_id'' pid (update_assignments w f)\<rparr>)
              [(MsgPostUpdated, CatSuccess)] sess)"
  by (simp add: update_branches_def posts_update_item_def call_def bindE_def)

text \<open>\<^verbatim>\<open>delete\<close> ends in \<^verbatim>\<open>NameError\<close> for every request, with the store as it was.\<close>

lemma delete_always_raises:
  "delete st sess cu pid = answer (Uncaught NameError) st [] sess"
  by (simp add: delete_def global_name_def module_globals_def bindE_def)

text \<open>
  Claim C1: a request to \<^verbatim>\<open>/{post_id}/update\<close>, GET or POST, by a principal that is neither
  the owner of the post nor an administrator changes nothing in the store and is answered
  by a redirect with the no-permission message. The store is unchanged, but no redirect
  is sent: for the post \<^verbatim>\<open>P1\<close> of member \<^verbatim>\<open>u1\<close> and the request of member \<^verbatim>\<open>u2\<close>, who is
  no administrator, the GET and the POST both end in the \<^verbatim>\<open>AttributeError\<close> of
  \<^verbatim>\<open>app.posts_table_name\<close>, which \<^verbatim>\<open>except ClientError\<close> does not catch, and nothing is
  flashed.
\<close>

theorem update_raises_AttributeError:
  "get_S (post_of ''P1'' ''u1'' ''old'') ''user_id'' = Some ''u1''
   \<and> map_option (\<lambda>u. (get_id u, is_administrator u))
        (current_user demo_world example_store (Some ''u2'')) = Some (''u2'', False)
   \<and> route_update demo_world example_store (Some ''u2'') GET new_title ''P1''
       = answer (Uncaught AttributeError) example_store [] (Some ''u2'')
   \<and> route_update demo_world example_store (Some ''u2'') POST new_title ''P1''
       = answer (Uncaught AttributeError) example_store [] (Some ''u2'')"
  by code_simp

text \<open>
  Claim C9: a GET request to \<^verbatim>\<open>/{id}/delete\<close> by an authenticated user removes the post
  with that key and redirects to the landing page. The view names \<^verbatim>\<open>Post\<close> and \<^verbatim>\<open>db\<close>,
  which the module never binds: for the stored post \<^verbatim>\<open>1\<close> the request ends in
  \<^verbatim>\<open>NameError\<close>, with the post still in the table and no redirect.
\<close>

theorem delete_raises_NameError:
  "get_item (posts_table example_store) ''post_id'' ''1'' = Some (post_of ''1'' ''u1'' ''first'')
   \<and> route_delete demo_world example_store (Some ''u1'') ''1''
     = answer (Uncaught NameError) example_store [] (Some ''u1'')"
  by code_simp

section \<open>The account handler\<close>

lemma account_store_unchanged:
  "store_after (account L w st sess cu m f uid_arg) = st"
  by (simp add: account_def users_get_item_def call_def bindE_def answer_def
        users_update_item_def split: option.splits sum.splits error.splits)

lemma account_never_renders_form:
  "resp (account L w st sess cu m f uid_arg) \<noteq> Render AccountHtml errs data"
  by (simp add: account_def users_get_item_def call_def bindE_def answer_def
        users_update_item_def split: option.splits sum.splits error.splits)

lemma account_TypeError:
  assumes "fault st = None"
    and "get_item (users_table st) ''user_id'' uid_arg = Some user"
    and "uid_arg = get_id cu \<or> is_administrator cu"
  shows "account L w st sess cu m f uid_arg = answer (Uncaught TypeError) st [] sess"
proof -
  have "attr_S user ''user_id'' = Inr uid_arg"
    using assms(2) by (simp add: get_item_has_key has_key_attr_S)
  then show ?thesis
    using assms by (auto simp: account_def users_get_item_def call_def bindE_def)
qed

text \<open>
  Claim C3: whenever the store answers, the target user exists and the principal is that
  user or an administrator, the request to \<^verbatim>\<open>/{user_id}/account\<close>, GET or POST, ends in
  the \<^verbatim>\<open>TypeError\<close> of \<^verbatim>\<open>UpdateUserForm(user_id)\<close>, which \<^verbatim>\<open>except ClientError\<close> does not
  catch: nothing is flashed and the store is as before. And for every request at all, the
  handler leaves the store unchanged and never renders the account form.
\<close>

theorem account_form_construction_raises:
  "(fault st = None \<and> get_item (users_table st) ''user_id'' uid_arg = Some user
      \<and> (uid_arg = get_id cu \<or> is_administrator cu)
     \<longrightarrow> account L w st sess cu m f uid_arg = answer (Uncaught TypeError) st [] sess)
   \<and> store_after (account L w st sess cu m f uid_arg) = st
   \<and> (\<forall>errs data. resp (account L w st sess cu m f uid_arg) \<noteq> Render AccountHtml errs data)"
proof (intro conjI impI allI)
  assume "fault st = None \<and> get_item (users_table st) ''user_id'' uid_arg = Some user
      \<and> (uid_arg = get_id cu \<or> is_administrator cu)"
  then show "account L w st sess cu m f uid_arg = answer (Uncaught TypeError) st [] sess"
    by (simp add: account_TypeError)
next
  show "store_after (account L w st sess cu m f uid_arg) = st"
    by (rule account_store_unchanged)
next
  fix errs data
  show "resp (account L w st sess cu m f uid_arg) \<noteq> Render AccountHtml errs data"
    by (rule account_never_renders_form)
qed

theorem account_form_construction_raises_witness:
  "current_user demo_world example_store (Some ''u2'') = Some principal_u2
   \<and> fault example_store = None
   \<and> get_item (users_table example_store) ''user_id'' ''u2''
       = Some (member ''u2'' ''b@example.com'' ''hunter2222'' False)
   \<and> ''u2'' = get_id principal_u2
   \<and> account demo_lib demo_world example_store (Some ''u2'') principal_u2 GET only_email ''u2''
       = answer (Uncaught TypeError) example_store [] (Some ''u2'')"
proof -
  have h: "current_user demo_world example_store (Some ''u2'') = Some principal_u2
      \<and> fault example_store = None
      \<and> get_item (users_table example_store) ''user_id'' ''u2''
          = Some (member ''u2'' ''b@example.com'' ''hunter2222'' False)
      \<and> ''u2'' = get_id principal_u2"
    by code_simp
  with account_form_construction_raises
         [where st = example_store and uid_arg = "''u2''" and cu = principal_u2
            and user = "member ''u2'' ''b@example.com'' ''hunter2222'' False"
            and L = demo_lib and w = demo_world and sess = "Some ''u2''" and m = GET
            and f = only_email]
  show ?thesis by blast
qed

text \<open>
  Claim C5: a member update that supplies, of the updatable fields, only \<^verbatim>\<open>email\<close> changes
  \<^verbatim>\<open>email\<close> and \<^verbatim>\<open>updated_at\<close> of the stored record and nothing else, and every update sets
  \<^verbatim>\<open>updated_at\<close>. Lines 602-636 are written to do so, but line 600 raises first: member
  \<^verbatim>\<open>u1\<close> posting only a new address gets the \<^verbatim>\<open>TypeError\<close>, and the record keeps its address
  and its time stamp. Had the form been built, its validation would still refuse the
  submission, since \<^verbatim>\<open>user_name\<close> and eight more fields are \<^verbatim>\<open>DataRequired\<close>.
\<close>

theorem account_only_email_changes_nothing:
  "route_account demo_lib demo_world example_store (Some ''u1'') POST only_email ''u1''
     = answer (Uncaught TypeError) example_store [] (Some ''u1'')
   \<and> UpdateUserForm_validate demo_lib example_store
        \<lparr>self_id = Str ''u1'', self_table = TableResource\<rparr> only_email
     = Inr [(F_organization, [MsgSelectOrganization]), (F_display_name, [MsgFieldRequired]),
            (F_user_name, [MsgFieldRequired]), (F_furigana, [MsgFieldRequired]),
            (F_phone, [MsgFieldRequired]), (F_post_code, [MsgFieldRequired]),
            (F_address, [MsgFieldRequired]), (F_gender, [MsgFieldRequired]),
            (F_date_of_birth, [MsgFieldRequired])]"
  by code_simp

text \<open>
  The two refusals of \<^verbatim>\<open>account\<close> (lines 592-598), and the principal as the loader
  builds it: \<^verbatim>\<open>administrator\<close> is never set.
\<close>

lemma account_404:
  "fault st = None \<Longrightarrow> get_item (users_table st) ''user_id'' uid_arg = None \<Longrightarrow>
   account L w st sess cu m f uid_arg = answer (Abort 404) st [] sess"
  by (simp add: account_def users_get_item_def call_def bindE_def)

lemma account_403:
  "fault st = None \<Longrightarrow> get_item (users_table st) ''user_id'' uid_arg = Some user \<Longrightarrow>
   uid_arg \<noteq> get_id cu \<Longrightarrow> \<not> is_administrator cu \<Longrightarrow>
   account L w st sess cu m f uid_arg = answer (Abort 403) st [] sess"
  using has_key_attr_S [OF get_item_has_key, of "users_table st" "''user_id''" uid_arg user]
  by (simp add: account_def users_get_item_def call_def bindE_def)

lemma user_of_client_item_no_administrator:
  "user_of_client_item w it = Inr u \<Longrightarrow> \<not> administrator u"
  by (auto simp: user_of_client_item_def bindE_Inr_iff User_init_def)

lemma loaded_principal_is_no_administrator:
  "current_user w st sess = Some cu \<Longrightarrow> \<not> is_administrator cu"
  by (auto simp: current_user_def load_user_def is_administrator_def
        dest: user_of_client_item_no_administrator
        split: option.splits sum.splits)

text \<open>
  Claim C8: a request to \<^verbatim>\<open>/{user_id}/account\<close> is answered 404 when no such user exists
  and 403 when the requester is neither that user nor an administrator, before any form
  processing or write, and an administrator is not blocked. The two refusals are as
  claimed. The administrator is blocked: \<^verbatim>\<open>load_user\<close> builds the principal without the
  stored \<^verbatim>\<open>administrator\<close> attribute (lines 99-111; \<^verbatim>\<open>from_dynamodb_item\<close> and
  \<^verbatim>\<open>get_user_from_dynamodb\<close> read it), so \<^verbatim>\<open>is_administrator\<close> is false for every principal.
  The member \<^verbatim>\<open>adm\<close>, stored with \<^verbatim>\<open>administrator\<close> true, asks for the account of \<^verbatim>\<open>u1\<close>.
\<close>

theorem stored_administrator_is_blocked:
  "map_of (member ''adm'' ''admin@example.com'' ''adminpass'' True) ''administrator''
     = Some (BOOL True)
   \<and> map_option (\<lambda>u. (get_id u, is_administrator u))
        (current_user demo_world example_store (Some ''adm'')) = Some (''adm'', False)
   \<and> route_account demo_lib demo_world example_store (Some ''adm'') GET only_email ''u1''
     = answer (Abort 403) example_store [] (Some ''adm'')"
  by code_simp

section \<open>Registration\<close>

text \<open>
  A registration under a stored address never writes: the validator refuses it, and the
  view's own query (lines 391-403) would. On the \<^verbatim>\<open>email\<close> field the chain ends with the
  message of line 148, never with that of line 145.
\<close>

lemma duplicate_signup_inserts_nothing:
  assumes "query_email (users_table st) (reg_email f) \<noteq> []"
  shows "store_after (signup L w st sess m f) = st"
  using assms
  by (simp add: signup_def answer_def users_query_email_def call_def bindE_def
        split: sum.splits error.splits option.splits)

lemma email_chain_duplicate:
  assumes "fault st = None" "query_email (users_table st) e \<noteq> []" "strip e \<noteq> []"
  shows "run_validation_chain
           [DataRequired MsgFieldRequired e, Email_v L MsgEmailFormat e,
            RegistrationForm_validate_email st e] s []
         = Inr (s, (if email_syntax L e then [] else [MsgEmailFormat]) @ [MsgEmailCheckError])"
  using assms strip_nonempty [of e]
  by (simp add: DataRequired_def Email_v_def RegistrationForm_validate_email_def
        users_query_email_def call_def bindE_def)

text \<open>
  Claim C4: a registration whose address is that of an existing member fails with a
  duplicate-address message and adds no record. No record is added. The message is another
  one: the validator raises the duplicate message (line 145) inside its own \<^verbatim>\<open>try\<close>, and
  \<^verbatim>\<open>except Exception\<close> replaces it by the message of a failed check (line 148); the view
  then renders the form again with that message flashed.
\<close>

theorem duplicate_signup_reports_check_error:
  "signup demo_lib demo_world example_store None POST example_registration
     = answer (Render SignupHtml [(F_email, [MsgEmailCheckError])] []) example_store
         [(FieldMsg F_email MsgEmailCheckError, CatError)] None"
  by code_simp

section \<open>Login\<close>

text \<open>
  The two failures of a login, for every library and store: an address nobody registered,
  and a registered address with a password its hash refuses. Both end in the validators;
  neither flashes anything.
\<close>

lemma unknown_email_login:
  assumes "current_user w st sess = None" "fault st = None"
    and "strip e \<noteq> []" "strip p \<noteq> []"
    and "query_email (users_table st) e = []"
  shows "login L w st sess POST \<lparr>login_email = e, login_password = p, login_remember = r\<rparr>
           next_arg host_url
         = answer (Render LoginHtml
                     [(F_email, (if email_syntax L e then [] else [MsgLoginEmailFormat])
                                @ [MsgLoginProcessingError]),
                      (F_password, [MsgCheckEmailFirst])] [])
             st [] sess"
  using assms strip_nonempty [of e] strip_nonempty [of p]
  by (simp add: login_def LoginForm_validate_def LoginForm_fields_def DataRequired_def
        Email_v_def LoginForm_validate_email_def LoginForm_validate_password_def
        users_query_email_def call_def bindE_def)

lemma wrong_password_login:
  assumes "current_user w st sess = None" "fault st = None"
    and "strip e \<noteq> []" "strip p \<noteq> []" "email_syntax L e"
    and "query_email (users_table st) e = it # rest"
    and "attr_S it ''password'' = Inr h" "\<not> check_password_hash L h p"
  shows "login L w st sess POST \<lparr>login_email = e, login_password = p, login_remember = r\<rparr>
           next_arg host_url
         = answer (Render LoginHtml [(F_password, [MsgPasswordIncorrect])] []) st [] sess"
  using assms strip_nonempty [of e] strip_nonempty [of p]
  by (simp add: login_def LoginForm_validate_def LoginForm_fields_def DataRequired_def
        Email_v_def LoginForm_validate_email_def LoginForm_validate_password_def
        users_query_email_def call_def bindE_def)

text \<open>
  Claim C2: a login that fails because the address is unknown and one that fails because
  the password is wrong both show the one generic invalid-credentials message, and bind no
  session. No session is bound. The generic message (lines 489, 528) is flashed only after
  the form has validated; both failures are found by the form's validators, which flash
  nothing and leave different errors on the form.
\<close>

theorem failed_logins_are_distinguishable:
  "login demo_lib demo_world example_store None POST
      (credentials ''x@example.com'' ''password123'') None ''https://example.com/''
     = answer (Render LoginHtml
                 [(F_email, [MsgLoginProcessingError]), (F_password, [MsgCheckEmailFirst])] [])
         example_store [] None
   \<and> login demo_lib demo_world example_store None POST
      (credentials ''a@example.com'' ''wrong-password'') None ''https://example.com/''
     = answer (Render LoginHtml [(F_password, [MsgPasswordIncorrect])] []) example_store [] None"
  by code_simp

text \<open>
  A target that \<^verbatim>\<open>urljoin\<close> or \<^verbatim>\<open>urlparse\<close> refuses: the exception comes after
  \<^verbatim>\<open>login_user\<close> and the success message, so the login page is rendered with both
  messages flashed and the session bound.
\<close>

lemma unparsable_target_keeps_session:
  "login demo_lib demo_world example_store None POST
     (credentials ''a@example.com'' ''password123'') (Some ''//[x'') ''https://example.com/''
   = answer (Render LoginHtml [] []) example_store
       [(MsgLoginSuccess, CatSuccess), (MsgLoginProcessingError, CatError)] (Some ''u1'')"
  by code_simp

text \<open>
  Claim C6, as the code has it: after a successful login whose continuation target, when
  one is given and is not empty, is resolved against the site's host URL without an
  error, the target is followed exactly when it is given, is not empty, and resolves to
  the scheme \<^verbatim>\<open>http\<close> or \<^verbatim>\<open>https\<close>, whichever of the two the site itself uses, and to the
  site's network location; otherwise the redirect goes to the index page. The session is
  bound.
\<close>

theorem login_redirect_target:
  assumes ok: "(MsgLoginSuccess, CatSuccess)
                 \<in> set (flashes (login L w st sess m f next_arg host_url))"
    and res: "\<forall>t. next_arg = Some t \<and> t \<noteq> [] \<longrightarrow>
                (\<exists>ref_url joined test_url.
                   urlparse L host_url = Inr ref_url \<and> urljoin L host_url t = Inr joined
                   \<and> urlparse L joined = Inr test_url)"
  shows "resp (login L w st sess m f next_arg host_url) =
           (case next_arg of
              None \<Rightarrow> Redirect Index
            | Some t \<Rightarrow>
                if t \<noteq> []
                   \<and> (\<exists>ref_url joined test_url.
                        urlparse L host_url = Inr ref_url \<and> urljoin L host_url t = Inr joined
                        \<and> urlparse L joined = Inr test_url
                        \<and> fst test_url \<in> {''http'', ''https''}
                        \<and> snd test_url = snd ref_url)
                then RedirectUrl t else Redirect Index)
         \<and> session_after (login L w st sess m f next_arg host_url) \<noteq> None"
proof (cases next_arg)
  case None
  with ok show ?thesis
    by (auto simp: login_def answer_def next_page_def bindE_def
          split: option.splits sum.splits list.splits error.splits if_splits)
next
  case (Some t)
  show ?thesis
  proof (cases "t = []")
    case True
    with ok Some show ?thesis
      by (auto simp: login_def answer_def next_page_def bindE_def
            split: option.splits sum.splits list.splits error.splits if_splits)
  next
    case False
    with res Some obtain ref_url joined test_url where
      r: "urlparse L host_url = Inr ref_url" "urljoin L host_url t = Inr joined"
         "urlparse L joined = Inr test_url"
      by blast
    have n: "next_page L host_url next_arg =
               Inr (if fst test_url \<in> {''http'', ''https''} \<and> snd ref_url = snd test_url
                    then RedirectUrl t else Redirect Index)"
      using Some False r by (simp add: next_page_def is_safe_url_def bindE_def)
    have e: "(\<exists>ref_url joined test_url.
                urlparse L host_url = Inr ref_url \<and> urljoin L host_url t = Inr joined
                \<and> urlparse L joined = Inr test_url
                \<and> fst test_url \<in> {''http'', ''https''}
                \<and> snd test_url = snd ref_url)
             = (fst test_url \<in> {''http'', ''https''} \<and> snd ref_url = snd test_url)"
      (is "?lhs = ?rhs")
    proof
      assume ?lhs
      then obtain ref_url' joined' test_url' where
        "urlparse L host_url = Inr ref_url'" "urljoin L host_url t = Inr joined'"
        "urlparse L joined' = Inr test_url'"
        "fst test_url' \<in> {''http'', ''https''}" "snd test_url' = snd ref_url'"
        by blast
      with r show ?rhs by simp
    next
      assume ?rhs
      with r show ?lhs
        by (intro exI [of _ ref_url] exI [of _ joined] exI [of _ test_url]) simp
    qed
    from ok have "resp (login L w st sess m f next_arg host_url) =
                    (if fst test_url \<in> {''http'', ''https''} \<and> snd ref_url = snd test_url
                     then RedirectUrl t else Redirect Index)
                  \<and> session_after (login L w st sess m f next_arg host_url) \<noteq> None"
      unfolding login_def n
      by (auto simp: answer_def bindE_def
            split: option.splits sum.splits list.splits error.splits if_splits)
    then show ?thesis
      by (simp only: Some option.case e) (use False in simp)
  qed
qed

theorem login_redirect_target_witness:
  "(MsgLoginSuccess, CatSuccess)
     \<in> set (flashes (login demo_lib demo_world example_store None POST
                       (credentials ''a@example.com'' ''password123'')
                       (Some ''//evil.example/x'') ''https://example.com/''))
   \<and> urlparse demo_lib ''https://example.com/'' = Inr (''https'', ''example.com'')
   \<and> urljoin demo_lib ''https://example.com/'' ''//evil.example/x''
       = Inr ''https://evil.example/x''
   \<and> urlparse demo_lib ''https://evil.example/x'' = Inr (''https'', ''evil.example'')
   \<and> resp (login demo_lib demo_world example_store None POST
              (credentials ''a@example.com'' ''password123'')
              (Some ''//evil.example/x'') ''https://example.com/'') = Redirect Index
   \<and> session_after (login demo_lib demo_world example_store None POST
              (credentials ''a@example.com'' ''password123'')
              (Some ''//evil.example/x'') ''https://example.com/'') \<noteq> None"
proof -
  have ok: "(MsgLoginSuccess, CatSuccess)
     \<in> set (flashes (login demo_lib demo_world example_store None POST
                       (credentials ''a@example.com'' ''password123'')
                       (Some ''//evil.example/x'') ''https://example.com/''))"
    by code_simp
  have r: "urlparse demo_lib ''https://example.com/'' = Inr (''https'', ''example.com'')"
      "urljoin demo_lib ''https://example.com/'' ''//evil.example/x''
         = Inr ''https://evil.example/x''"
      "urlparse demo_lib ''https://evil.example/x'' = Inr (''https'', ''evil.example'')"
    by code_simp+
  have res: "\<forall>t. Some ''//evil.example/x'' = Some t \<and> t \<noteq> [] \<longrightarrow>
                (\<exists>ref_url joined test_url.
                   urlparse demo_lib ''https://example.com/'' = Inr ref_url
                   \<and> urljoin demo_lib ''https://example.com/'' t = Inr joined
                   \<and> urlparse demo_lib joined = Inr test_url)"
    using r by auto
  from login_redirect_target [OF ok res] ok r show ?thesis
    by simp
qed

text \<open>
  The claim C6 as written, that a target whose scheme differs from the site's is
  rejected, fails: on the site \<^verbatim>\<open>https://example.com/\<close> the target
  \<^verbatim>\<open>http://example.com/foo\<close> is followed.
\<close>

theorem other_scheme_target_is_followed:
  "urlparse demo_lib ''http://example.com/foo'' = Inr (''http'', ''example.com'')
   \<and> urlparse demo_lib ''https://example.com/'' = Inr (''https'', ''example.com'')
   \<and> login demo_lib demo_world example_store None POST
        (credentials ''a@example.com'' ''password123'') (Some ''http://example.com/foo'')
        ''https://example.com/''
     = answer (RedirectUrl ''http://example.com/foo'') example_store
         [(MsgLoginSuccess, CatSuccess)] (Some ''u1'')"
  by code_simp

text \<open>
  A login under a registered address with capital letters, when nothing is stored under
  the lower-case form: the form validates, the handler looks the lower-case form up, finds
  nothing, and answers with the login page and the generic invalid-credentials message.
\<close>

lemma mixed_case_login_reply:
  assumes anon: "current_user w st sess = None"
    and up: "fault st = None"
    and reg: "query_email (users_table st) e = it # rest"
    and pw: "attr_S it ''password'' = Inr h" "check_password_hash L h p"
    and wf: "strip e \<noteq> []" "strip p \<noteq> []" "email_syntax L e"
    and miss: "query_email (users_table st) (lower e) = []"
  shows "login L w st sess POST \<lparr>login_email = e, login_password = p, login_remember = r\<rparr>
           next_arg host_url
         = answer (Render LoginHtml [] []) st [(MsgInvalidCredentials, CatError)] sess"
proof -
  have ne: "e \<noteq> []" "p \<noteq> []"
    using wf by (auto dest: strip_nonempty)
  have v: "LoginForm_validate L st \<lparr>login_email = e, login_password = p, login_remember = r\<rparr>
             = Inr []"
    using up reg pw wf ne
    by (simp add: LoginForm_validate_def LoginForm_fields_def DataRequired_def Email_v_def
          LoginForm_validate_email_def LoginForm_validate_password_def users_query_email_def
          call_def bindE_def)
  show ?thesis
    using anon up miss v by (simp add: login_def users_query_email_def call_def bindE_def)
qed

text \<open>
  The only way \<^verbatim>\<open>login\<close> changes the session: the first record stored under the lower-case
  form of the submitted address has the eleven attributes of a member, and its hash
  accepts the submitted password.
\<close>

lemma login_binds_only_lowercase_record:
  assumes "session_after (login L w st sess m f next_arg host_url) \<noteq> sess"
  shows "\<exists>twin rest user.
           query_email (users_table st) (lower (login_email f)) = twin # rest
           \<and> user_of_client_item w twin = Inr user
           \<and> check_password_hash L (password_hash user) (login_password f)"
  using assms
  by (auto simp: login_def answer_def users_query_email_def call_def bindE_def
        check_password_def
        split: option.splits sum.splits list.splits error.splits if_splits)

text \<open>
  Claim C10, as the code has it: let a record be the first one stored under the address
  \<open>e\<close>, let \<open>e\<close> differ from its lower-case form, and let the submitted address be exactly
  \<open>e\<close> and the password one that the record's hash accepts. Then the login binds no
  session, unless the first record stored under the lower-case form of \<open>e\<close> is a member
  record whose hash accepts the submitted password.
\<close>

theorem mixed_case_login_is_rejected:
  assumes reg: "query_email (users_table st) e = it # rest"
    and pw: "attr_S it ''password'' = Inr h" "check_password_hash L h p"
    and diff: "lower e \<noteq> e"
    and twin: "\<not> (\<exists>twin others user.
                    query_email (users_table st) (lower e) = twin # others
                    \<and> user_of_client_item w twin = Inr user
                    \<and> check_password_hash L (password_hash user) p)"
  shows "session_after
           (login L w st sess m \<lparr>login_email = e, login_password = p, login_remember = r\<rparr>
              next_arg host_url) = sess"
proof (rule ccontr)
  assume "session_after
            (login L w st sess m \<lparr>login_email = e, login_password = p, login_remember = r\<rparr>
               next_arg host_url) \<noteq> sess"
  from login_binds_only_lowercase_record [OF this] twin show False
    by simp
qed

theorem mixed_case_login_is_rejected_witness:
  "query_email (users_table other_password_twin_store) ''Taro@Example.com''
     = [member ''u1'' ''Taro@Example.com'' ''password123'' False]
   \<and> check_password_hash demo_lib (demo_generate_password_hash ''abc'' ''password123'')
        ''password123''
   \<and> lower ''Taro@Example.com'' \<noteq> ''Taro@Example.com''
   \<and> query_email (users_table other_password_twin_store) (lower ''Taro@Example.com'')
     = [member ''u2'' ''taro@example.com'' ''different99'' False]
   \<and> session_after
        (login demo_lib demo_world other_password_twin_store None POST
           \<lparr>login_email = ''Taro@Example.com'', login_password = ''password123'',
            login_remember = False\<rparr> None ''https://example.com/'') = None"
proof -
  have reg: "query_email (users_table other_password_twin_store) ''Taro@Example.com''
               = member ''u1'' ''Taro@Example.com'' ''password123'' False # []"
    by code_simp
  have pw: "attr_S (member ''u1'' ''Taro@Example.com'' ''password123'' False) ''password''
              = Inr (demo_generate_password_hash ''abc'' ''password123'')"
       "check_password_hash demo_lib (demo_generate_password_hash ''abc'' ''password123'')
          ''password123''"
    by code_simp+
  have diff: "lower ''Taro@Example.com'' \<noteq> ''Taro@Example.com''"
    by code_simp
  have q: "query_email (users_table other_password_twin_store) (lower ''Taro@Example.com'')
             = [member ''u2'' ''taro@example.com'' ''different99'' False]"
    by code_simp
  have a: "attr_S (member ''u2'' ''taro@example.com'' ''different99'' False) ''password''
             = Inr (demo_generate_password_hash ''abc'' ''different99'')"
    by code_simp
  have n: "\<not> check_password_hash demo_lib
               (demo_generate_password_hash ''abc'' ''different99'') ''password123''"
    by code_simp
  have twin: "\<not> (\<exists>twin others user.
                    query_email (users_table other_password_twin_store)
                      (lower ''Taro@Example.com'') = twin # others
                    \<and> user_of_client_item demo_world twin = Inr user
                    \<and> check_password_hash demo_lib (password_hash user) ''password123'')"
    using q a n by (auto dest: user_of_client_item_password)
  from mixed_case_login_is_rejected [OF reg pw diff twin] reg pw(2) diff q
  show ?thesis by simp
qed

text \<open>
  The claim C10 as written, that such a login never binds a session, fails when a second
  member is stored under the lower-case form with a hash that accepts the same password:
  the handler then binds the session to that second member.
\<close>

theorem mixed_case_login_binds_twin:
  "query_email (users_table twin_store) ''Taro@Example.com''
     = [member ''u1'' ''Taro@Example.com'' ''password123'' False]
   \<and> lower ''Taro@Example.com'' \<noteq> ''Taro@Example.com''
   \<and> check_password_hash demo_lib (demo_generate_password_hash ''abc'' ''password123'')
        ''password123''
   \<and> login demo_lib demo_world twin_store None POST
        (credentials ''Taro@Example.com'' ''password123'') None ''https://example.com/''
     = answer (Redirect Index) twin_store [(MsgLoginSuccess, CatSuccess)] (Some ''u2'')"
  by code_simp

end
